theory Spec2Isabelle
  imports Main "HOL-Library.AList" "HOL-Library.Sublist"
begin

section \<open>JavaScript values and strings\<close>

text \<open>
  A JavaScript string is a sequence of UTF-16 code units. The model uses \<^typ>\<open>string\<close>,
  whose characters are the code units U+0000 to U+00FF; \<open>trim\<close> and \<open>toLowerCase\<close> are
  given for exactly that range.

  A property read from the parsed JSON body (\<open>payload.email\<close>, \<open>payload.role\<close>, ...) is a
  \<open>jsval\<close>: the property is absent (\<open>undefined\<close>), \<open>null\<close>, a string, or any other JSON
  value (boolean, number, array, object). Of the last kind the source only ever observes
  that it is not a string, its truthiness and its \<open>ToString\<close> text, so these two are what
  the constructor carries. The text is \<open>None\<close> for a value that has none: an object whose own
  property \<open>toString\<close> is not a function (as in \<open>{"toString": 1}\<close>), or an array holding
  one. Converting such a value to a string throws a \<open>TypeError\<close>.
\<close>

datatype jsval =
    JUndefined
  | JNull
  | JStr string
  | JOther bool "string option"

datatype js_error = TypeError

fun truthy :: "jsval \<Rightarrow> bool" where
  "truthy JUndefined = False"
| "truthy JNull = False"
| "truthy (JStr s) = (s \<noteq> [])"
| "truthy (JOther t txt) = t"

text \<open>\<open>ToString\<close>, as \<open>String(v)\<close> and string concatenation apply it.\<close>

fun to_str :: "jsval \<Rightarrow> js_error + string" where
  "to_str JUndefined = Inr ''undefined''"
| "to_str JNull = Inr ''null''"
| "to_str (JStr s) = Inr s"
| "to_str (JOther t None) = Inl TypeError"
| "to_str (JOther t (Some txt)) = Inr txt"

text \<open>Truthiness of a value that is a string or \<open>null\<close>/\<open>undefined\<close>.\<close>

fun truthy_opt :: "string option \<Rightarrow> bool" where
  "truthy_opt None = False"
| "truthy_opt (Some s) = (s \<noteq> [])"

text \<open>
  \<open>String.prototype.trim\<close> removes white space and line terminators from both ends: in the
  modelled range these are TAB, LF, VT, FF, CR, SPACE and NBSP.
\<close>

definition js_whitespace :: "char \<Rightarrow> bool" where
  "js_whitespace c = ((of_char c :: nat) \<in> {9, 10, 11, 12, 13, 32, 160})"

definition trim :: "string \<Rightarrow> string" where
  "trim s = rev (dropWhile js_whitespace (rev (dropWhile js_whitespace s)))"

text \<open>
  \<open>String.prototype.toLowerCase\<close>: in the modelled range the letters with a lower-case
  partner are A-Z, U+00C0 to U+00D6 and U+00D8 to U+00DE, each 32 below its partner.
\<close>

definition lower_char :: "char \<Rightarrow> char" where
  "lower_char c =
     (let n = (of_char c :: nat)
      in if (65 \<le> n \<and> n \<le> 90) \<or> (192 \<le> n \<and> n \<le> 214) \<or> (216 \<le> n \<and> n \<le> 222)
         then char_of (n + 32) else c)"

definition toLowerCase :: "string \<Rightarrow> string" where
  "toLowerCase s = map lower_char s"

text \<open>\<open>s.includes(c)\<close> for a one-character needle.\<close>

definition includes_char :: "char \<Rightarrow> string \<Rightarrow> bool" where
  "includes_char c s = (c \<in> set s)"

section \<open>extractEmail\<close>

text \<open>
  \<open>trimmed.match(/<([^>]+)>/)\<close>: the leftmost \<open><\<close> that is followed by at least one
  character other than \<open>>\<close> and then by \<open>>\<close>; the captured group is that run. The class
  \<open>[^>]\<close> also matches \<open><\<close> and line terminators, and the greedy run can only end at the
  first \<open>>\<close>, so no shorter run can match at the same start.
\<close>

fun match_bracket :: "string \<Rightarrow> string option" where
  "match_bracket [] = None"
| "match_bracket (c # cs) =
     (if c = CHR ''<'' \<and> takeWhile (\<lambda>x. x \<noteq> CHR ''>'') cs \<noteq> []
         \<and> dropWhile (\<lambda>x. x \<noteq> CHR ''>'') cs \<noteq> []
      then Some (takeWhile (\<lambda>x. x \<noteq> CHR ''>'') cs)
      else match_bracket cs)"

text \<open>
  \<^verbatim>\<open>
  function extractEmail(value) {
    if (typeof value !== 'string') return null;
    const trimmed = value.trim();
    if (!trimmed) return null;
    const match = trimmed.match(/<([^>]+)>/);
    const email = (match ? match[1] : trimmed).toLowerCase();
    return email.includes('@') ? email : null;
  }
  \<close>
\<close>

definition extractEmail_str :: "string \<Rightarrow> string option" where
  "extractEmail_str v =
     (let trimmed = trim v
      in if trimmed = [] then None
         else let email = toLowerCase (case match_bracket trimmed of
                                         Some g \<Rightarrow> g
                                       | None \<Rightarrow> trimmed)
              in if includes_char CHR ''@'' email then Some email else None)"

fun extractEmail :: "jsval \<Rightarrow> string option" where
  "extractEmail (JStr v) = extractEmail_str v"
| "extractEmail _ = None"

text \<open>
  The procedure in the words of the specification, for comparison: take the bracketed
  portion if present, trim it, lower-case it, and require it to contain \<open>@\<close>.
\<close>

definition extractEmail_spec :: "jsval \<Rightarrow> string option" where
  "extractEmail_spec value =
     (case value of
        JStr v \<Rightarrow>
          (let email = toLowerCase (trim (case match_bracket v of Some g \<Rightarrow> g | None \<Rightarrow> v))
           in if includes_char CHR ''@'' email then Some email else None)
      | _ \<Rightarrow> None)"

section \<open>Configuration\<close>

text \<open>
  \<open>process.env\<close> maps names to strings. \<open>process.env.X || null\<close> is the value when it is
  set and non-empty, else \<open>null\<close>.
\<close>

type_synonym env = "string \<rightharpoonup> string"

definition or_null :: "string option \<Rightarrow> string option" where
  "or_null v = (if truthy_opt v then v else None)"

text \<open>\<open>s.split(',')\<close>, with the current piece accumulated in reverse.\<close>

fun split_on :: "char \<Rightarrow> string \<Rightarrow> string \<Rightarrow> string list" where
  "split_on d acc [] = [rev acc]"
| "split_on d acc (c # cs) =
     (if c = d then rev acc # split_on d [] cs else split_on d (c # acc) cs)"

definition split_comma :: "string \<Rightarrow> string list" where
  "split_comma s = split_on CHR '','' [] s"

text \<open>
  What \<open>nodemailer.createTransport\<close> is given. The port and the secure flag are left out:
  they are numbers parsed from the environment, and nothing in the request handling reads
  them.
\<close>

record transport =
  host :: string
  auth_user :: string
  auth_pass :: string

text \<open>The module-level constants of \<open>server.js\<close>.\<close>

record config =
  SMTP_USER :: "string option"
  SMTP_PASS :: "string option"
  INVITE_FROM_NAME :: string
  INVITE_FROM_EMAIL :: "string option"
  INVITE_REPLY_TO :: "string option"
  INVITE_EMAIL_API_KEY :: "string option"
  INVITE_ALLOWED_ORIGINS :: "string list"
  allowAnyOrigin :: bool
  transporter :: "transport option"

text \<open>
  \<^verbatim>\<open>
  const SMTP_HOST = process.env.SMTP_HOST || 'smtp.gmail.com';
  const SMTP_USER = process.env.SMTP_USER || null;
  const SMTP_PASS = process.env.SMTP_PASS || null;
  const INVITE_FROM_NAME = process.env.INVITE_FROM_NAME || 'Attendance Platform';
  const INVITE_FROM_EMAIL = process.env.INVITE_FROM_EMAIL || SMTP_USER;
  const INVITE_REPLY_TO = process.env.INVITE_REPLY_TO || null;
  const INVITE_EMAIL_API_KEY = process.env.INVITE_EMAIL_API_KEY || null;
  const INVITE_ALLOWED_ORIGINS = (process.env.INVITE_ALLOWED_ORIGINS || '*')
    .split(',').map((origin) => origin.trim()).filter(Boolean);
  const allowAnyOrigin = INVITE_ALLOWED_ORIGINS.includes('*');
  const transporter = SMTP_USER && SMTP_PASS ? nodemailer.createTransport({...}) : null;
  \<close>
\<close>

definition or_default :: "string option \<Rightarrow> string \<Rightarrow> string" where
  "or_default v d = (case or_null v of Some s \<Rightarrow> s | None \<Rightarrow> d)"

definition load_config :: "env \<Rightarrow> config" where
  "load_config e =
     (let smtp_host = or_default (e ''SMTP_HOST'') ''smtp.gmail.com'';
          smtp_user = or_null (e ''SMTP_USER'');
          smtp_pass = or_null (e ''SMTP_PASS'');
          origins = filter (\<lambda>s. s \<noteq> [])
                      (map trim (split_comma (or_default (e ''INVITE_ALLOWED_ORIGINS'') ''*'')))
      in \<lparr> SMTP_USER = smtp_user,
           SMTP_PASS = smtp_pass,
           INVITE_FROM_NAME = or_default (e ''INVITE_FROM_NAME'') ''Attendance Platform'',
           INVITE_FROM_EMAIL =
             (if truthy_opt (e ''INVITE_FROM_EMAIL'') then e ''INVITE_FROM_EMAIL'' else smtp_user),
           INVITE_REPLY_TO = or_null (e ''INVITE_REPLY_TO''),
           INVITE_EMAIL_API_KEY = or_null (e ''INVITE_EMAIL_API_KEY''),
           INVITE_ALLOWED_ORIGINS = origins,
           allowAnyOrigin = (''*'' \<in> set origins),
           transporter =
             (case (smtp_user, smtp_pass) of
                (Some u, Some p) \<Rightarrow>
                  (if u \<noteq> [] \<and> p \<noteq> []
                   then Some \<lparr> host = smtp_host, auth_user = u, auth_pass = p \<rparr> else None)
              | _ \<Rightarrow> None) \<rparr>)"

section \<open>Requests and responses\<close>

datatype http_method = GET | HEAD | POST | OPTIONS | OTHER_METHOD

text \<open>Which mounted path the framework's router matches the request URL against.\<close>

datatype route = OpenApiJson | Docs | Health | SendInviteEmail | NoRoute

text \<open>The properties of the JSON body that the handler reads.\<close>

record payload =
  p_email :: jsval
  p_link :: jsval
  p_first_name :: jsval
  p_last_name :: jsval
  p_role :: jsval
  p_organization_name :: jsval
  p_from :: jsval

definition empty_payload :: payload where
  "empty_payload =
     \<lparr> p_email = JUndefined, p_link = JUndefined, p_first_name = JUndefined,
       p_last_name = JUndefined, p_role = JUndefined, p_organization_name = JUndefined,
       p_from = JUndefined \<rparr>"

text \<open>
  What \<open>express.json({ limit: '250kb' })\<close> makes of the request body: it fails the request
  (malformed JSON, or too large), leaves \<open>req.body\<close> unset, or sets it.
\<close>

datatype parsed_body = ParseFailed | NoBody | JsonBody payload

record request =
  meth :: http_method
  route :: route
  origin :: "string option"
  x_api_key :: "string option"
  req_body :: parsed_body

datatype resp_body =
    EmptyBody
  | ErrorBody string
  | DeliveredBody jsval
  | FailedBody string
  | HealthBody
  | OpenApiBody

record response =
  status :: nat
  headers :: "(string \<times> string) list"
  body :: resp_body

definition new_response :: response where
  "new_response = \<lparr> status = 200, headers = [], body = EmptyBody \<rparr>"

definition setHeader :: "string \<Rightarrow> string \<Rightarrow> response \<Rightarrow> response" where
  "setHeader k v res = res\<lparr> headers := AList.update k v (headers res) \<rparr>"

definition getHeader :: "response \<Rightarrow> string \<Rightarrow> string option" where
  "getHeader res k = map_of (headers res) k"

definition set_status :: "nat \<Rightarrow> response \<Rightarrow> response" where
  "set_status n res = res\<lparr> status := n \<rparr>"

text \<open>\<open>res.json(b)\<close> sets the content type and the body, and sends the response.\<close>

definition json :: "resp_body \<Rightarrow> response \<Rightarrow> response" where
  "json b res = (setHeader ''Content-Type'' ''application/json; charset=utf-8'' res)\<lparr> body := b \<rparr>"

text \<open>
  \<^verbatim>\<open>
  function applyCors(req, res) {
    const origin = req.headers.origin;
    if (allowAnyOrigin) {
      res.setHeader('Access-Control-Allow-Origin', '*');
    } else if (origin && INVITE_ALLOWED_ORIGINS.includes(origin)) {
      res.setHeader('Access-Control-Allow-Origin', origin);
    }
    res.setHeader('Vary', 'Origin');
    res.setHeader('Access-Control-Allow-Headers', 'Content-Type, X-API-Key');
    res.setHeader('Access-Control-Allow-Methods', 'GET, POST, OPTIONS');
  }
  \<close>
\<close>

definition applyCors :: "config \<Rightarrow> request \<Rightarrow> response \<Rightarrow> response" where
  "applyCors cfg req res =
     (let res1 =
            (if allowAnyOrigin cfg then setHeader ''Access-Control-Allow-Origin'' ''*'' res
             else (case origin req of
                     Some orig \<Rightarrow>
                       (if orig \<noteq> [] \<and> orig \<in> set (INVITE_ALLOWED_ORIGINS cfg)
                        then setHeader ''Access-Control-Allow-Origin'' orig res else res)
                   | None \<Rightarrow> res))
      in setHeader ''Access-Control-Allow-Methods'' ''GET, POST, OPTIONS''
           (setHeader ''Access-Control-Allow-Headers'' ''Content-Type, X-API-Key''
              (setHeader ''Vary'' ''Origin'' res1)))"

section \<open>The invite composer\<close>

text \<open>
  \<^verbatim>\<open>
  function formatFrom(name, email) {
    if (!email) return null;
    if (name) return `${name} <${email}>`;
    return email;
  }
  \<close>
\<close>

definition formatFrom :: "string \<Rightarrow> string option \<Rightarrow> string option" where
  "formatFrom name email =
     (case email of
        None \<Rightarrow> None
      | Some e \<Rightarrow>
          (if e = [] then None
           else if name \<noteq> [] then Some (name @ '' <'' @ e @ ''>'')
           else Some e))"

text \<open>\<open>xs.join(sep)\<close> on a list of strings.\<close>

fun join :: "string \<Rightarrow> string list \<Rightarrow> string" where
  "join sep [] = []"
| "join sep [x] = x"
| "join sep (x # y # ys) = x @ sep @ join sep (y # ys)"

text \<open>
  \<open>Array.prototype.join\<close> on a list of values turns each element into a string first, from
  left to right: \<open>undefined\<close> and \<open>null\<close> become the empty string, every other element goes
  through \<open>ToString\<close>, and the first conversion that throws ends the call.
\<close>

fun join_element :: "jsval \<Rightarrow> js_error + string" where
  "join_element JUndefined = Inr []"
| "join_element JNull = Inr []"
| "join_element v = to_str v"

fun join_elements :: "jsval list \<Rightarrow> js_error + string list" where
  "join_elements [] = Inr []"
| "join_elements (v # vs) =
     (case join_element v of
        Inl e \<Rightarrow> Inl e
      | Inr s \<Rightarrow> (case join_elements vs of Inl e \<Rightarrow> Inl e | Inr ss \<Rightarrow> Inr (s # ss)))"

definition join_values :: "string \<Rightarrow> jsval list \<Rightarrow> js_error + string" where
  "join_values sep vs =
     (case join_elements vs of Inl e \<Rightarrow> Inl e | Inr ss \<Rightarrow> Inr (join sep ss))"

record invite_fields =
  firstName :: jsval
  lastName :: jsval
  role :: jsval
  organizationName :: jsval
  link :: string

record invite_bodies =
  subject :: string
  textBody :: string
  htmlBody :: string

text \<open>
  \<^verbatim>\<open>
  const recipientName = [firstName, lastName].filter(Boolean).join(' ').trim() || 'there';
  \<close>
\<close>

definition recipientName :: "jsval \<Rightarrow> jsval \<Rightarrow> js_error + string" where
  "recipientName fst_name lst_name =
     (case join_values '' '' (filter truthy [fst_name, lst_name]) of
        Inl e \<Rightarrow> Inl e
      | Inr joined \<Rightarrow> (let n = trim joined in Inr (if n = [] then ''there'' else n)))"

text \<open>
  \<^verbatim>\<open>
  const subjectOrg = (organizationName && organizationName.trim()) || 'Attendance Platform';
  \<close>
  A truthy value that is not a string has no \<open>trim\<close> function, and calling it throws a
  \<open>TypeError\<close>.
\<close>

definition subjectOrg :: "jsval \<Rightarrow> js_error + string" where
  "subjectOrg org =
     (if \<not> truthy org then Inr ''Attendance Platform''
      else (case org of
              JStr s \<Rightarrow> (let t = trim s in Inr (if t = [] then ''Attendance Platform'' else t))
            | _ \<Rightarrow> Inl TypeError))"

text \<open>
  \<^verbatim>\<open>
  const roleLabel = role ? String(role).replace(/_/g, ' ') : 'member';
  \<close>
\<close>

definition roleLabel :: "jsval \<Rightarrow> js_error + string" where
  "roleLabel r =
     (if truthy r
      then (case to_str r of
              Inl e \<Rightarrow> Inl e
            | Inr s \<Rightarrow> Inr (map (\<lambda>c. if c = CHR ''_'' then CHR '' '' else c) s))
      else Inr ''member'')"

text \<open>
  \<^verbatim>\<open>
  function buildInviteBodies({ firstName, lastName, role, organizationName, link }) {
    ...
    const subject = `You're invited to ${subjectOrg}`;
    const textBody = [
      `Hi ${recipientName},`,
      '',
      `You've been invited to join ${subjectOrg} as a ${roleLabel}.`,
      'Use the link below to set up your username and password:',
      link,
      '',
      'If you were not expecting this email, you can ignore it.',
    ].join('\n');
    const htmlBody = `
      <p>Hi ${recipientName},</p>
      <p>You've been invited to join <strong>${subjectOrg}</strong> as a <strong>${roleLabel}</strong>.</p>
      <p><a href="${link}" target="_blank" rel="noopener noreferrer">Click here to finish registration</a>.</p>
      <p>If you were not expecting this email, you can ignore it.</p>
    `;
    return { subject, textBody, htmlBody };
  }
  \<close>
\<close>

definition buildInviteBodies :: "invite_fields \<Rightarrow> js_error + invite_bodies" where
  \<open>buildInviteBodies inp =
     (case recipientName (firstName inp) (lastName inp) of
        Inl e \<Rightarrow> Inl e
      | Inr name \<Rightarrow>
     (case subjectOrg (organizationName inp) of
        Inl e \<Rightarrow> Inl e
      | Inr org \<Rightarrow>
     (case roleLabel (role inp) of
        Inl e \<Rightarrow> Inl e
      | Inr label \<Rightarrow>
          Inr \<lparr> subject = ''You're invited to '' @ org,
                textBody = join ''\<newline>''
                  [''Hi '' @ name @ '','',
                   [],
                   ''You've been invited to join '' @ org @ '' as a '' @ label @ ''.'',
                   ''Use the link below to set up your username and password:'',
                   link inp,
                   [],
                   ''If you were not expecting this email, you can ignore it.''],
                htmlBody =
                  ''\<newline>    <p>Hi '' @ name @ '',</p>''
                  @ ''\<newline>    <p>You've been invited to join <strong>'' @ org
                  @ ''</strong> as a <strong>'' @ label @ ''</strong>.</p>''
                  @ ''\<newline>    <p><a href="'' @ link inp
                  @ ''" target="_blank" rel="noopener noreferrer">Click here to finish registration</a>.</p>''
                  @ ''\<newline>    <p>If you were not expecting this email, you can ignore it.</p>''
                  @ ''\<newline>  '' \<rparr>)))\<close>

section \<open>The mail dispatcher\<close>

text \<open>
  \<open>transporter.sendMail\<close> is an external collaborator: it is a parameter of the model. Given
  the message it resolves with an \<open>info\<close> object, of which the handler reads
  \<open>info.messageId\<close>, or it rejects with a thrown value that either is an \<open>Error\<close> with a
  message text or is not an \<open>Error\<close>.
\<close>

record mail =
  mail_from :: "string option"
  mail_to :: string
  mail_subject :: string
  mail_text :: string
  mail_html :: string
  mail_replyTo :: "string option"

datatype thrown = ErrorObject string | NotAnError

datatype send_result = Resolved jsval | Rejected thrown

section \<open>POST /send-invite-email\<close>

text \<open>
  What a request comes to: the code sent a response, the handler threw, or control went to
  code outside \<open>server.js\<close> (the framework's error and not-found handling, the
  documentation UI) with the response object as it was then.
\<close>

datatype outcome = Responded response | Threw js_error | PassedOn response

text \<open>
  \<^verbatim>\<open>
  app.post('/send-invite-email', async (req, res) => {
    if (INVITE_EMAIL_API_KEY) {
      const providedKey = req.get('x-api-key');
      if (!providedKey || providedKey !== INVITE_EMAIL_API_KEY) {
        return res.status(401).json({ error: 'Unauthorized' });
      }
    }
    const payload = req.body || {};
    const email = extractEmail(payload.email);
    const link = typeof payload.link === 'string' ? payload.link.trim() : '';
    if (!email || !link) {
      return res.status(400).json({ error: 'Email and registration link are required.' });
    }
    if (!transporter || !SMTP_USER || !SMTP_PASS) {
      return res.status(500).json({ error: 'SMTP credentials are not configured.' });
    }
    if (!INVITE_FROM_EMAIL) {
      return res.status(500).json({ error: 'INVITE_FROM_EMAIL is not configured.' });
    }
    const fromAddress = formatFrom(INVITE_FROM_NAME, INVITE_FROM_EMAIL);
    const replyToAddress = INVITE_REPLY_TO || extractEmail(payload.from) || undefined;
    const { subject, textBody, htmlBody } = buildInviteBodies({...});
    try {
      const info = await transporter.sendMail({...});
      return res.json({ delivered: true, messageId: info.messageId || null });
    } catch (error) {
      const message = error instanceof Error ? error.message : 'Unable to send invitation email.';
      return res.status(502).json({ delivered: false, reason: message });
    }
  });
  \<close>
  The result is the outcome together with the messages handed to \<open>sendMail\<close>, in order.
  The call of \<open>buildInviteBodies\<close> stands before the \<open>try\<close>: what it throws is not caught, and
  the handler ends without having sent a response.
\<close>

definition unauthorized :: "config \<Rightarrow> request \<Rightarrow> bool" where
  "unauthorized cfg req =
     (truthy_opt (INVITE_EMAIL_API_KEY cfg)
      \<and> (\<not> truthy_opt (x_api_key req) \<or> x_api_key req \<noteq> INVITE_EMAIL_API_KEY cfg))"

definition payload_of :: "request \<Rightarrow> payload" where
  "payload_of req = (case req_body req of JsonBody p \<Rightarrow> p | _ \<Rightarrow> empty_payload)"

definition link_of :: "payload \<Rightarrow> string" where
  "link_of p = (case p_link p of JStr s \<Rightarrow> trim s | _ \<Rightarrow> [])"

definition replyToAddress :: "config \<Rightarrow> payload \<Rightarrow> string option" where
  "replyToAddress cfg p =
     (if truthy_opt (INVITE_REPLY_TO cfg) then INVITE_REPLY_TO cfg
      else if truthy_opt (extractEmail (p_from p)) then extractEmail (p_from p)
      else None)"

definition send_invite_email ::
  "config \<Rightarrow> (mail \<Rightarrow> send_result) \<Rightarrow> request \<Rightarrow> response \<Rightarrow> outcome \<times> mail list" where
  "send_invite_email cfg sendMail req res =
     (if unauthorized cfg req
      then (Responded (json (ErrorBody ''Unauthorized'') (set_status 401 res)), [])
      else
        let p = payload_of req;
            email = extractEmail (p_email p);
            lnk = link_of p
        in if \<not> truthy_opt email \<or> lnk = []
           then (Responded (json (ErrorBody ''Email and registration link are required.'')
                              (set_status 400 res)), [])
           else if transporter cfg = None \<or> \<not> truthy_opt (SMTP_USER cfg)
                   \<or> \<not> truthy_opt (SMTP_PASS cfg)
           then (Responded (json (ErrorBody ''SMTP credentials are not configured.'')
                              (set_status 500 res)), [])
           else if \<not> truthy_opt (INVITE_FROM_EMAIL cfg)
           then (Responded (json (ErrorBody ''INVITE_FROM_EMAIL is not configured.'')
                              (set_status 500 res)), [])
           else
             (case buildInviteBodies
                     \<lparr> firstName = p_first_name p, lastName = p_last_name p, role = p_role p,
                       organizationName = p_organization_name p, link = lnk \<rparr> of
                Inl e \<Rightarrow> (Threw e, [])
              | Inr b \<Rightarrow>
                  (let m = \<lparr> mail_from = formatFrom (INVITE_FROM_NAME cfg) (INVITE_FROM_EMAIL cfg),
                             mail_to = (case email of Some a \<Rightarrow> a | None \<Rightarrow> []),
                             mail_subject = subject b,
                             mail_text = textBody b,
                             mail_html = htmlBody b,
                             mail_replyTo = replyToAddress cfg p \<rparr>
                   in (case sendMail m of
                         Resolved messageId \<Rightarrow>
                           Responded (json (DeliveredBody
                                              (if truthy messageId then messageId else JNull)) res)
                       | Rejected (ErrorObject message) \<Rightarrow>
                           Responded (json (FailedBody message) (set_status 502 res))
                       | Rejected NotAnError \<Rightarrow>
                           Responded (json (FailedBody ''Unable to send invitation email.'')
                                        (set_status 502 res)),
                       [m]))))"

section \<open>The application\<close>

text \<open>
  \<^verbatim>\<open>
  app.use((req, res, next) => {
    applyCors(req, res);
    if (req.method === 'OPTIONS') { return res.sendStatus(204); }
    return next();
  });
  app.use(express.json({ limit: '250kb' }));
  app.get('/openapi.json', (req, res) => { res.json(swaggerSpec); });
  app.use('/docs', swaggerUi.serve, swaggerUi.setup(swaggerSpec));
  app.get('/health', (req, res) => { res.json({ ok: true }); });
  app.post('/send-invite-email', ...);
  \<close>
  A route registered with \<open>app.get\<close> also answers HEAD requests.
\<close>

definition app :: "config \<Rightarrow> (mail \<Rightarrow> send_result) \<Rightarrow> request \<Rightarrow> outcome \<times> mail list" where
  "app cfg sendMail req =
     (let res = applyCors cfg req new_response
      in if meth req = OPTIONS then (Responded (set_status 204 res), [])
         else if req_body req = ParseFailed then (PassedOn res, [])
         else if route req = OpenApiJson \<and> (meth req = GET \<or> meth req = HEAD)
         then (Responded (json OpenApiBody res), [])
         else if route req = Docs then (PassedOn res, [])
         else if route req = Health \<and> (meth req = GET \<or> meth req = HEAD)
         then (Responded (json HealthBody res), [])
         else if route req = SendInviteEmail \<and> meth req = POST
         then send_invite_email cfg sendMail req res
         else (PassedOn res, []))"

section \<open>Observations and example inputs\<close>

text \<open>
  A request that reaches the handler of POST /send-invite-email: the method and the route
  match, and the body parser did not fail the request.
\<close>

definition post_send_invite :: "request \<Rightarrow> bool" where
  "post_send_invite req =
     (meth req = POST \<and> route req = SendInviteEmail \<and> req_body req \<noteq> ParseFailed)"

text \<open>The response the code sent, if it sent one.\<close>

fun sent_response :: "outcome \<Rightarrow> response option" where
  "sent_response (Responded r) = Some r"
| "sent_response (Threw e) = None"
| "sent_response (PassedOn r) = None"

text \<open>The response object at the end, whether the code sent it or passed it on.\<close>

fun response_object :: "outcome \<Rightarrow> response option" where
  "response_object (Responded r) = Some r"
| "response_object (Threw e) = None"
| "response_object (PassedOn r) = Some r"

definition status_of :: "outcome \<Rightarrow> nat option" where
  "status_of out = map_option status (sent_response out)"

definition body_of :: "outcome \<Rightarrow> resp_body option" where
  "body_of out = map_option body (sent_response out)"

text \<open>A string value that is empty after trimming.\<close>

fun blank_string :: "jsval \<Rightarrow> bool" where
  "blank_string (JStr s) = (trim s = [])"
| "blank_string _ = False"

text \<open>A value that is truthy and not a string.\<close>

fun truthy_non_string :: "jsval \<Rightarrow> bool" where
  "truthy_non_string (JOther t txt) = t"
| "truthy_non_string _ = False"

text \<open>Example environments: nothing set; SMTP set; SMTP and an API key; only an API key.\<close>

definition env_empty :: env where
  "env_empty = map_of []"

definition env_smtp :: env where
  "env_smtp = map_of [(''SMTP_USER'', ''mailer@example.com''), (''SMTP_PASS'', ''secret'')]"

definition env_smtp_key :: env where
  "env_smtp_key =
     map_of [(''SMTP_USER'', ''mailer@example.com''), (''SMTP_PASS'', ''secret''),
             (''INVITE_EMAIL_API_KEY'', ''k3y'')]"

definition env_key :: env where
  "env_key = map_of [(''INVITE_EMAIL_API_KEY'', ''k3y'')]"

text \<open>Example dispatchers.\<close>

definition send_ok :: "mail \<Rightarrow> send_result" where
  "send_ok m = Resolved (JStr ''abc123'')"

definition send_refused :: "mail \<Rightarrow> send_result" where
  "send_refused m = Rejected (ErrorObject ''connection refused'')"

text \<open>Example requests to POST /send-invite-email.\<close>

definition post_request :: "string option \<Rightarrow> payload \<Rightarrow> request" where
  "post_request key p =
     \<lparr> meth = POST, route = SendInviteEmail, origin = None, x_api_key = key,
       req_body = JsonBody p \<rparr>"

definition valid_payload :: payload where
  "valid_payload =
     empty_payload \<lparr> p_email := JStr ''John Doe <JOHN@EXAMPLE.com>'',
                     p_link := JStr '' https://example.com/register '',
                     p_role := JStr ''team_lead'' \<rparr>"

definition blank_email_payload :: payload where
  "blank_email_payload =
     empty_payload \<lparr> p_email := JStr ''   '', p_link := JStr ''https://example.com/register'' \<rparr>"

text \<open>A value of the type the request schema declares for a field: a string, or absent.\<close>

fun string_or_absent :: "jsval \<Rightarrow> bool" where
  "string_or_absent JUndefined = True"
| "string_or_absent JNull = True"
| "string_or_absent (JStr s) = True"
| "string_or_absent (JOther t txt) = False"

text \<open>A POST to /send-invite-email without a key header whose body the parser rejects.\<close>

definition parse_failed_request :: request where
  "parse_failed_request =
     \<lparr> meth = POST, route = SendInviteEmail, origin = None, x_api_key = None,
       req_body = ParseFailed \<rparr>"

text \<open>A body whose address has blanks inside the brackets.\<close>

definition inner_blanks_payload :: payload where
  "inner_blanks_payload =
     empty_payload \<lparr> p_email := JStr ''Jo < JO@EXAMPLE.com >'',
                     p_link := JStr ''https://example.com/register'' \<rparr>"

text \<open>\<open>valid_payload\<close> with the number 5 as organization name.\<close>

definition numeric_org_payload :: payload where
  "numeric_org_payload = valid_payload \<lparr> p_organization_name := JOther True (Some ''5'') \<rparr>"

text \<open>Example composer inputs, by role and organization name.\<close>

definition fields_of :: "jsval \<Rightarrow> jsval \<Rightarrow> invite_fields" where
  "fields_of r org =
     \<lparr> firstName = JStr ''Ann'', lastName = JUndefined, role = r, organizationName = org,
       link = ''https://example.com/register'' \<rparr>"

text \<open>
  A configuration with SMTP credentials and a transporter but no sender address: a value
  of the record that \<open>load_config\<close> yields for no environment.
\<close>

definition cfg_no_sender :: config where
  "cfg_no_sender = (load_config env_smtp)\<lparr> INVITE_FROM_EMAIL := None \<rparr>"

text \<open>
  The message composed for \<open>valid_payload\<close> under \<open>env_smtp\<close>.
\<close>

definition example_mail :: mail where
  \<open>example_mail =
     \<lparr> mail_from = Some ''Attendance Platform <mailer@example.com>'',
       mail_to = ''john@example.com'',
       mail_subject = ''You're invited to Attendance Platform'',
       mail_text = ''Hi there,\<newline>\<newline>You've been invited to join Attendance Platform as a team lead.\<newline>Use the link below to set up your username and password:\<newline>https://example.com/register\<newline>\<newline>If you were not expecting this email, you can ignore it.'',
       mail_html = ''\<newline>    <p>Hi there,</p>\<newline>    <p>You've been invited to join <strong>Attendance Platform</strong> as a <strong>team lead</strong>.</p>\<newline>    <p><a href="https://example.com/register" target="_blank" rel="noopener noreferrer">Click here to finish registration</a>.</p>\<newline>    <p>If you were not expecting this email, you can ignore it.</p>\<newline>  '',
       mail_replyTo = None \<rparr>\<close>

section \<open>Basic facts\<close>

lemma getHeader_setHeader:
  "getHeader (setHeader k v res) k' = (if k' = k then Some v else getHeader res k')"
  by (simp add: getHeader_def setHeader_def update_conv')

lemma status_setHeader: "status (setHeader k v res) = status res"
  by (simp add: setHeader_def)

lemma body_setHeader: "body (setHeader k v res) = body res"
  by (simp add: setHeader_def)

lemma status_json: "status (json b res) = status res"
  by (simp add: json_def setHeader_def)

lemma body_json: "body (json b res) = b"
  by (simp add: json_def)

lemma getHeader_json:
  "k \<noteq> ''Content-Type'' \<Longrightarrow> getHeader (json b res) k = getHeader res k"
  by (simp add: json_def getHeader_def setHeader_def update_conv')

lemma getHeader_set_status: "getHeader (set_status n res) k = getHeader res k"
  by (simp add: set_status_def getHeader_def)

lemma status_set_status: "status (set_status n res) = n"
  by (simp add: set_status_def)

lemma status_applyCors: "status (applyCors cfg req res) = status res"
  by (simp add: applyCors_def Let_def status_setHeader split: option.splits)

lemma status_cors_new: "status (applyCors cfg req new_response) = 200"
  by (simp add: status_applyCors new_response_def)

lemma applyCors_wildcard:
  "allowAnyOrigin cfg \<Longrightarrow>
   getHeader (applyCors cfg req res) ''Access-Control-Allow-Origin'' = Some ''*''"
  by (simp add: applyCors_def Let_def getHeader_setHeader)

lemma app_post:
  "post_send_invite req \<Longrightarrow>
   app cfg sendMail req = send_invite_email cfg sendMail req (applyCors cfg req new_response)"
  by (simp add: app_def post_send_invite_def Let_def)

lemma post_request_reaches: "post_send_invite (post_request key p)"
  by (simp add: post_send_invite_def post_request_def)

text \<open>The outcomes of the handler, branch by branch.\<close>

lemma handler_unauthorized:
  "unauthorized cfg req \<Longrightarrow>
   send_invite_email cfg sendMail req res =
     (Responded (json (ErrorBody ''Unauthorized'') (set_status 401 res)), [])"
  by (simp add: send_invite_email_def)

lemma handler_invalid:
  "\<not> unauthorized cfg req \<Longrightarrow>
   \<not> truthy_opt (extractEmail (p_email (payload_of req))) \<or> link_of (payload_of req) = [] \<Longrightarrow>
   send_invite_email cfg sendMail req res =
     (Responded (json (ErrorBody ''Email and registration link are required.'')
                   (set_status 400 res)), [])"
  by (auto simp add: send_invite_email_def Let_def)

lemma handler_no_smtp:
  "\<not> unauthorized cfg req \<Longrightarrow>
   truthy_opt (extractEmail (p_email (payload_of req))) \<Longrightarrow> link_of (payload_of req) \<noteq> [] \<Longrightarrow>
   transporter cfg = None \<or> \<not> truthy_opt (SMTP_USER cfg) \<or> \<not> truthy_opt (SMTP_PASS cfg) \<Longrightarrow>
   send_invite_email cfg sendMail req res =
     (Responded (json (ErrorBody ''SMTP credentials are not configured.'')
                   (set_status 500 res)), [])"
  by (auto simp add: send_invite_email_def Let_def)

lemma handler_no_sender:
  "\<not> unauthorized cfg req \<Longrightarrow>
   truthy_opt (extractEmail (p_email (payload_of req))) \<Longrightarrow> link_of (payload_of req) \<noteq> [] \<Longrightarrow>
   transporter cfg \<noteq> None \<Longrightarrow> truthy_opt (SMTP_USER cfg) \<Longrightarrow> truthy_opt (SMTP_PASS cfg) \<Longrightarrow>
   \<not> truthy_opt (INVITE_FROM_EMAIL cfg) \<Longrightarrow>
   send_invite_email cfg sendMail req res =
     (Responded (json (ErrorBody ''INVITE_FROM_EMAIL is not configured.'')
                   (set_status 500 res)), [])"
  by (auto simp add: send_invite_email_def Let_def)

lemma extractEmail_nonempty: "extractEmail v = Some e \<Longrightarrow> e \<noteq> []"
  by (cases v) (auto simp add: extractEmail_str_def Let_def includes_char_def split: if_splits)

lemma truthy_extractEmail: "truthy_opt (extractEmail v) \<longleftrightarrow> extractEmail v \<noteq> None"
  by (cases "extractEmail v") (auto dest: extractEmail_nonempty)

lemma all_dropWhile_iff: "(\<forall>x\<in>set (dropWhile P s). P x) \<longleftrightarrow> (\<forall>x\<in>set s. P x)"
  by (induction s) auto

lemma trim_empty_iff: "trim s = [] \<longleftrightarrow> (\<forall>c\<in>set s. js_whitespace c)"
  by (simp add: trim_def dropWhile_eq_Nil_conv all_dropWhile_iff)

lemma extractEmail_blank:
  "\<forall>c\<in>set s. js_whitespace c \<Longrightarrow> extractEmail (JStr s) = None"
  by (simp add: extractEmail_str_def trim_empty_iff)

lemma link_of_blank:
  "p_link p = JStr s \<Longrightarrow> \<forall>c\<in>set s. js_whitespace c \<Longrightarrow> link_of p = []"
  by (simp add: link_of_def trim_empty_iff)

lemma handler_dispatch:
  assumes "snd (send_invite_email cfg sendMail req res) = m # ms"
  shows "ms = []
       \<and> fst (send_invite_email cfg sendMail req res) =
           (case sendMail m of
              Resolved messageId \<Rightarrow>
                Responded (json (DeliveredBody (if truthy messageId then messageId else JNull)) res)
            | Rejected (ErrorObject message) \<Rightarrow>
                Responded (json (FailedBody message) (set_status 502 res))
            | Rejected NotAnError \<Rightarrow>
                Responded (json (FailedBody ''Unable to send invitation email.'')
                             (set_status 502 res)))"
  using assms
  by (auto simp add: send_invite_email_def Let_def split: if_splits sum.splits)

lemma app_dispatch:
  assumes "snd (app cfg sendMail req) = m # ms"
  shows "app cfg sendMail req
           = send_invite_email cfg sendMail req (applyCors cfg req new_response)"
  using assms by (auto simp add: app_def Let_def split: if_splits)

subsection \<open>Trimming, lower-casing and the bracket match\<close>

lemma ws_not_lt: "js_whitespace c \<Longrightarrow> c \<noteq> CHR ''<''"
  by (auto simp add: js_whitespace_def)

lemma ws_not_gt: "js_whitespace c \<Longrightarrow> c \<noteq> CHR ''>''"
  by (auto simp add: js_whitespace_def)

lemma ws_not_at: "js_whitespace c \<Longrightarrow> c \<noteq> CHR ''@''"
  by (auto simp add: js_whitespace_def)

lemma trim_decomp:
  "\<exists>a b. s = a @ trim s @ b \<and> (\<forall>c\<in>set a. js_whitespace c) \<and> (\<forall>c\<in>set b. js_whitespace c)"
proof -
  let ?u = "dropWhile js_whitespace s"
  let ?a = "takeWhile js_whitespace s"
  let ?b = "rev (takeWhile js_whitespace (rev ?u))"
  have "rev (takeWhile js_whitespace (rev ?u) @ dropWhile js_whitespace (rev ?u)) = rev (rev ?u)"
    by (simp only: takeWhile_dropWhile_id)
  then have "rev (dropWhile js_whitespace (rev ?u)) @ ?b = ?u"
    by (simp only: rev_append rev_rev_ident)
  then have u: "?u = trim s @ ?b"
    by (simp only: trim_def)
  have "s = ?a @ ?u" by simp
  with u have "s = ?a @ trim s @ ?b" by simp
  moreover have "\<forall>c\<in>set ?a. js_whitespace c"
    by (auto dest: set_takeWhileD)
  moreover have "\<forall>c\<in>set ?b. js_whitespace c"
    by (auto dest: set_takeWhileD)
  ultimately show ?thesis by blast
qed

lemma match_bracket_no_lt: "CHR ''<'' \<notin> set s \<Longrightarrow> match_bracket s = None"
  by (induction s) auto

lemma match_bracket_prepend_ws:
  "\<forall>c\<in>set a. js_whitespace c \<Longrightarrow> match_bracket (a @ t) = match_bracket t"
  by (induction a) (auto dest: ws_not_lt)

lemma match_bracket_append_ws:
  assumes "\<forall>c\<in>set w. js_whitespace c"
  shows "match_bracket (t @ w) = match_bracket t"
proof (induction t)
  case Nil
  have "CHR ''<'' \<notin> set w" using assms ws_not_lt by blast
  then show ?case by (simp add: match_bracket_no_lt)
next
  case (Cons c cs)
  have w: "\<forall>x\<in>set w. x \<noteq> CHR ''>''" using assms ws_not_gt by blast
  show ?case
  proof (cases "dropWhile (\<lambda>x. x \<noteq> CHR ''>'') cs = []")
    case True
    then have all: "\<forall>x\<in>set cs. x \<noteq> CHR ''>''"
      by simp
    with w have "dropWhile (\<lambda>x. x \<noteq> CHR ''>'') (cs @ w) = []"
      by (auto simp add: dropWhile_eq_Nil_conv)
    with True Cons show ?thesis by simp
  next
    case False
    then have ex: "\<exists>x\<in>set cs. \<not> x \<noteq> CHR ''>''"
      by simp
    then have "takeWhile (\<lambda>x. x \<noteq> CHR ''>'') (cs @ w) = takeWhile (\<lambda>x. x \<noteq> CHR ''>'') cs"
      and "dropWhile (\<lambda>x. x \<noteq> CHR ''>'') (cs @ w) = dropWhile (\<lambda>x. x \<noteq> CHR ''>'') cs @ w"
      by (auto simp add: takeWhile_append1 dropWhile_append1)
    with False Cons show ?thesis by simp
  qed
qed

lemma match_bracket_trim: "match_bracket (trim s) = match_bracket s"
proof -
  obtain a b where d: "s = a @ trim s @ b" and a: "\<forall>c\<in>set a. js_whitespace c"
    and b: "\<forall>c\<in>set b. js_whitespace c"
    using trim_decomp by blast
  have "match_bracket s = match_bracket (a @ trim s @ b)" using d by simp
  also have "\<dots> = match_bracket (trim s @ b)" using a by (rule match_bracket_prepend_ws)
  also have "\<dots> = match_bracket (trim s)" using b by (rule match_bracket_append_ws)
  finally show ?thesis by simp
qed

lemma at_in_trim: "CHR ''@'' \<in> set (trim s) \<longleftrightarrow> CHR ''@'' \<in> set s"
proof -
  obtain a b where d: "s = a @ trim s @ b" and a: "\<forall>c\<in>set a. js_whitespace c"
    and b: "\<forall>c\<in>set b. js_whitespace c"
    using trim_decomp by blast
  have "set s = set a \<union> set (trim s) \<union> set b"
    using arg_cong [OF d, of set] by auto
  then show ?thesis using a b ws_not_at by auto
qed

lemma lower_char_at: "lower_char c = CHR ''@'' \<longleftrightarrow> c = CHR ''@''"
proof (cases "(65 \<le> (of_char c :: nat) \<and> (of_char c :: nat) \<le> 90)
     \<or> (192 \<le> (of_char c :: nat) \<and> (of_char c :: nat) \<le> 214)
     \<or> (216 \<le> (of_char c :: nat) \<and> (of_char c :: nat) \<le> 222)")
  case True
  then have r: "65 \<le> (of_char c :: nat)" "(of_char c :: nat) \<le> 222" by auto
  have "lower_char c = char_of ((of_char c :: nat) + 32)"
    using True by (simp add: lower_char_def Let_def)
  moreover have "char_of ((of_char c :: nat) + 32) \<noteq> CHR ''@''"
    using r by (simp add: char_of_eq_iff take_bit_eq_mod)
  moreover have "c \<noteq> CHR ''@''" using r by auto
  ultimately show ?thesis by simp
next
  case False
  then show ?thesis by (auto simp add: lower_char_def Let_def)
qed

lemma at_lower_char: "CHR ''@'' = lower_char c \<longleftrightarrow> CHR ''@'' = c"
  using lower_char_at [of c] by auto

lemma at_in_lower: "CHR ''@'' \<in> set (toLowerCase s) \<longleftrightarrow> CHR ''@'' \<in> set s"
  by (induction s) (simp_all add: toLowerCase_def at_lower_char)

lemma match_bracket_sound:
  "match_bracket s = Some g \<Longrightarrow>
   \<exists>pre post. s = pre @ ''<'' @ g @ ''>'' @ post \<and> g \<noteq> [] \<and> CHR ''>'' \<notin> set g"
proof (induction s)
  case Nil
  then show ?case by simp
next
  case (Cons c cs)
  show ?case
  proof (cases "c = CHR ''<'' \<and> takeWhile (\<lambda>x. x \<noteq> CHR ''>'') cs \<noteq> []
         \<and> dropWhile (\<lambda>x. x \<noteq> CHR ''>'') cs \<noteq> []")
    case True
    with Cons.prems have g: "g = takeWhile (\<lambda>x. x \<noteq> CHR ''>'') cs" by simp
    from True have "hd (dropWhile (\<lambda>x. x \<noteq> CHR ''>'') cs) = CHR ''>''"
      using hd_dropWhile [of "\<lambda>x. x \<noteq> CHR ''>''" cs] by simp
    with True obtain post where p: "dropWhile (\<lambda>x. x \<noteq> CHR ''>'') cs = CHR ''>'' # post"
      by (cases "dropWhile (\<lambda>x. x \<noteq> CHR ''>'') cs") auto
    have "cs = g @ CHR ''>'' # post"
      using takeWhile_dropWhile_id [of "\<lambda>x. x \<noteq> CHR ''>''" cs] g p by simp
    with True have "c # cs = [] @ ''<'' @ g @ ''>'' @ post" by simp
    moreover have "g \<noteq> []" using True g by simp
    moreover have "CHR ''>'' \<notin> set g" using g by (auto dest: set_takeWhileD)
    ultimately show ?thesis by blast
  next
    case False
    with Cons.prems have "match_bracket cs = Some g" by auto
    from Cons.IH [OF this] obtain pre post where
      "cs = pre @ ''<'' @ g @ ''>'' @ post \<and> g \<noteq> [] \<and> CHR ''>'' \<notin> set g" by blast
    then have "c # cs = (c # pre) @ ''<'' @ g @ ''>'' @ post \<and> g \<noteq> [] \<and> CHR ''>'' \<notin> set g"
      by simp
    then show ?thesis by blast
  qed
qed

lemma extractEmail_bracket:
  assumes "match_bracket s = Some g"
  shows "extractEmail (JStr s) = (if CHR ''@'' \<in> set g then Some (toLowerCase g) else None)"
proof -
  have m: "match_bracket (trim s) = Some g"
    using assms by (simp add: match_bracket_trim)
  then have "trim s \<noteq> []" by auto
  with m show ?thesis
    by (simp add: extractEmail_str_def Let_def includes_char_def at_in_lower)
qed

lemma extractEmail_bare:
  assumes "match_bracket s = None"
  shows "extractEmail (JStr s)
           = (if CHR ''@'' \<in> set s then Some (toLowerCase (trim s)) else None)"
proof -
  have m: "match_bracket (trim s) = None"
    using assms by (simp add: match_bracket_trim)
  show ?thesis
  proof (cases "trim s = []")
    case True
    then have "CHR ''@'' \<notin> set s"
      using at_in_trim [of s] by simp
    with True show ?thesis by (simp add: extractEmail_str_def)
  next
    case False
    with m show ?thesis
      by (simp add: extractEmail_str_def Let_def includes_char_def at_in_lower at_in_trim)
  qed
qed

subsection \<open>Where extractEmail and the procedure of the specification agree\<close>

lemma extractEmail_non_string: "\<forall>s. v \<noteq> JStr s \<Longrightarrow> extractEmail v = None"
  by (cases v) auto

lemma extractEmail_agrees:
  assumes "\<forall>g. match_bracket s = Some g \<longrightarrow> trim g = g"
  shows "extractEmail (JStr s) = extractEmail_spec (JStr s)"
proof (cases "match_bracket s")
  case None
  then show ?thesis
    by (simp add: extractEmail_bare [OF None, simplified] extractEmail_spec_def Let_def
        includes_char_def at_in_lower at_in_trim)
next
  case (Some g)
  with assms have "trim g = g" by simp
  with Some show ?thesis
    by (simp add: extractEmail_bracket [OF Some, simplified] extractEmail_spec_def Let_def
        includes_char_def at_in_lower)
qed

lemma extractEmail_examples:
  "extractEmail (JStr ''John Doe <JOHN@EXAMPLE.com>'') = Some ''john@example.com''
   \<and> extractEmail (JStr ''not-an-email'') = None"
  by code_simp

subsection \<open>The composer\<close>

lemma subjectOrg_default:
  "\<not> truthy org \<or> blank_string org \<Longrightarrow> subjectOrg org = Inr ''Attendance Platform''"
  by (cases org) (auto simp add: subjectOrg_def Let_def)

lemma subjectOrg_named:
  "trim s \<noteq> [] \<Longrightarrow> subjectOrg (JStr s) = Inr (trim s)"
  by (auto simp add: subjectOrg_def Let_def trim_def)

lemma subjectOrg_throws:
  "subjectOrg org = Inl e \<longleftrightarrow> e = TypeError \<and> truthy_non_string org"
  by (cases org; cases e) (auto simp add: subjectOrg_def Let_def)

lemma subjectOrg_returns:
  "\<not> truthy_non_string org \<Longrightarrow> \<exists>name. subjectOrg org = Inr name"
  using subjectOrg_throws [of org] by (cases "subjectOrg org") auto

lemma buildInviteBodies_throws:
  "truthy_non_string (organizationName inp) \<Longrightarrow> buildInviteBodies inp = Inl TypeError"
proof -
  assume "truthy_non_string (organizationName inp)"
  then have "subjectOrg (organizationName inp) = Inl TypeError"
    by (simp add: subjectOrg_throws)
  then show ?thesis
    by (cases "recipientName (firstName inp) (lastName inp)")
       (auto simp add: buildInviteBodies_def intro: js_error.exhaust)
qed

lemma join_element_string_or_absent:
  "string_or_absent v \<Longrightarrow> \<exists>s. join_element v = Inr s"
  by (cases v) auto

lemma recipientName_returns:
  assumes "string_or_absent f" and "string_or_absent l"
  shows "\<exists>n. recipientName f l = Inr n"
proof -
  obtain a b where "join_element f = Inr a" "join_element l = Inr b"
    using assms join_element_string_or_absent by blast
  then show ?thesis
    by (simp add: recipientName_def join_values_def Let_def)
qed

lemma roleLabel_returns:
  "string_or_absent r \<Longrightarrow> \<exists>lbl. roleLabel r = Inr lbl"
  by (cases r) (auto simp add: roleLabel_def)

lemma buildInviteBodies_returns:
  assumes "string_or_absent (firstName inp)" and "string_or_absent (lastName inp)"
    and "string_or_absent (role inp)" and "string_or_absent (organizationName inp)"
  shows "\<exists>b. buildInviteBodies inp = Inr b"
proof -
  obtain n where n: "recipientName (firstName inp) (lastName inp) = Inr n"
    using recipientName_returns [OF assms(1,2)] by blast
  have "\<not> truthy_non_string (organizationName inp)"
    using assms(4) by (cases "organizationName inp") auto
  then obtain org where org: "subjectOrg (organizationName inp) = Inr org"
    using subjectOrg_returns by blast
  obtain lbl where lbl: "roleLabel (role inp) = Inr lbl"
    using roleLabel_returns [OF assms(3)] by blast
  show ?thesis
    by (simp add: buildInviteBodies_def n org lbl)
qed

lemma subject_of_returned:
  assumes "buildInviteBodies inp = Inr b"
    and "\<not> truthy (organizationName inp) \<or> blank_string (organizationName inp)"
  shows "subject b = ''You're invited to Attendance Platform''"
  using assms subjectOrg_default [OF assms(2)]
  by (auto simp add: buildInviteBodies_def split: sum.splits)

lemma label_in_returned_bodies:
  assumes "buildInviteBodies inp = Inr b"
  shows "\<exists>lbl. roleLabel (role inp) = Inr lbl
            \<and> sublist ('' as a '' @ lbl @ ''.'') (textBody b)
            \<and> sublist (''<strong>'' @ lbl @ ''</strong>'') (htmlBody b)"
proof -
  obtain name org lbl where n: "recipientName (firstName inp) (lastName inp) = Inr name"
    and org: "subjectOrg (organizationName inp) = Inr org"
    and lbl: "roleLabel (role inp) = Inr lbl"
    using assms by (auto simp add: buildInviteBodies_def split: sum.splits)
  have t: \<open>textBody b = (''Hi '' @ name @ '',\<newline>\<newline>You've been invited to join '' @ org)
          @ ('' as a '' @ lbl @ ''.'')
          @ (''\<newline>Use the link below to set up your username and password:\<newline>'' @ link inp
             @ ''\<newline>\<newline>If you were not expecting this email, you can ignore it.'')\<close>
    using assms by (auto simp add: buildInviteBodies_def n org lbl)
  have h: \<open>htmlBody b = (''\<newline>    <p>Hi '' @ name @ '',</p>\<newline>    <p>You've been invited to join <strong>''
                   @ org @ ''</strong> as a '')
          @ (''<strong>'' @ lbl @ ''</strong>'')
          @ (''.</p>\<newline>    <p><a href="'' @ link inp
             @ ''" target="_blank" rel="noopener noreferrer">Click here to finish registration</a>.</p>\<newline>    <p>If you were not expecting this email, you can ignore it.</p>\<newline>  '')\<close>
    using assms by (auto simp add: buildInviteBodies_def n org lbl)
  have "sublist ('' as a '' @ lbl @ ''.'') (textBody b)"
    unfolding t by (rule sublist_appendI)
  moreover have "sublist (''<strong>'' @ lbl @ ''</strong>'') (htmlBody b)"
    unfolding h by (rule sublist_appendI)
  ultimately show ?thesis using lbl by blast
qed

lemma roleLabel_string:
  "s \<noteq> [] \<Longrightarrow> roleLabel (JStr s) = Inr (map (\<lambda>c. if c = CHR ''_'' then CHR '' '' else c) s)"
  by (simp add: roleLabel_def)

lemma roleLabel_absent: "\<not> truthy r \<Longrightarrow> roleLabel r = Inr ''member''"
  by (simp add: roleLabel_def)

subsection \<open>When the handler reaches the dispatcher, and when the composer throws\<close>

lemma handler_reaches_dispatch:
  assumes "\<not> unauthorized cfg req"
    and "extractEmail (p_email (payload_of req)) = Some a"
    and "link_of (payload_of req) \<noteq> []"
    and "transporter cfg \<noteq> None" and "truthy_opt (SMTP_USER cfg)"
    and "truthy_opt (SMTP_PASS cfg)" and "truthy_opt (INVITE_FROM_EMAIL cfg)"
    and "buildInviteBodies
           \<lparr> firstName = p_first_name (payload_of req), lastName = p_last_name (payload_of req),
             role = p_role (payload_of req),
             organizationName = p_organization_name (payload_of req),
             link = link_of (payload_of req) \<rparr> = Inr b"
  shows "\<exists>m. snd (send_invite_email cfg sendMail req res) = [m] \<and> mail_to m = a
            \<and> mail_subject m = subject b"
proof -
  have e: "truthy_opt (extractEmail (p_email (payload_of req)))"
    using assms(2) extractEmail_nonempty [OF assms(2)] by simp
  show ?thesis
    using assms e
    by (simp add: send_invite_email_def Let_def)
qed

lemma handler_composer_throws:
  assumes "\<not> unauthorized cfg req"
    and "extractEmail (p_email (payload_of req)) \<noteq> None"
    and "link_of (payload_of req) \<noteq> []"
    and "transporter cfg \<noteq> None" and "truthy_opt (SMTP_USER cfg)"
    and "truthy_opt (SMTP_PASS cfg)" and "truthy_opt (INVITE_FROM_EMAIL cfg)"
    and "truthy_non_string (p_organization_name (payload_of req))"
  shows "send_invite_email cfg sendMail req res = (Threw TypeError, [])"
proof -
  have e: "truthy_opt (extractEmail (p_email (payload_of req)))"
    using assms(2) by (simp add: truthy_extractEmail)
  have "buildInviteBodies
           \<lparr> firstName = p_first_name (payload_of req), lastName = p_last_name (payload_of req),
             role = p_role (payload_of req),
             organizationName = p_organization_name (payload_of req),
             link = link_of (payload_of req) \<rparr> = Inl TypeError"
    using assms(8) by (simp add: buildInviteBodies_throws)
  then show ?thesis
    using assms e by (simp add: send_invite_email_def Let_def)
qed

subsection \<open>The sender address under a derived configuration\<close>

lemma load_config_sender:
  "truthy_opt (SMTP_USER (load_config e)) \<Longrightarrow> truthy_opt (INVITE_FROM_EMAIL (load_config e))"
  by (simp add: load_config_def Let_def)

lemma handler_body_no_sender:
  assumes "body_of (fst (send_invite_email cfg sendMail req res))
             = Some (ErrorBody ''INVITE_FROM_EMAIL is not configured.'')"
  shows "truthy_opt (SMTP_USER cfg) \<and> \<not> truthy_opt (INVITE_FROM_EMAIL cfg)"
  using assms
  by (auto simp add: send_invite_email_def Let_def body_of_def body_json
      split: if_splits sum.splits send_result.splits thrown.splits)

section \<open>The API-key gate\<close>

text \<open>
  Claim C3, as stated, fails: the JSON body parser runs before the handler and its key
  check. A POST to /send-invite-email without the key header and with a body the parser
  rejects never reaches the key check; the request goes to the framework's error handling
  and no 401 is sent.
\<close>

theorem parser_before_key_check_counterexample:
  "meth parse_failed_request = POST
   \<and> route parse_failed_request = SendInviteEmail
   \<and> truthy_opt (INVITE_EMAIL_API_KEY (load_config env_smtp_key))
   \<and> x_api_key parse_failed_request = None
   \<and> fst (app (load_config env_smtp_key) send_ok parse_failed_request)
       = PassedOn (applyCors (load_config env_smtp_key) parse_failed_request new_response)
   \<and> status_of (fst (app (load_config env_smtp_key) send_ok parse_failed_request)) \<noteq> Some 401"
  by code_simp

text \<open>
  Claim C3, amended. For every request to POST /send-invite-email, when the configuration
  has an API key and the request's \<open>x-api-key\<close> header is absent or differs from the
  configured key: if the JSON body parser did not fail the request, the response is 401
  with the body \<open>{ error: 'Unauthorized' }\<close>, whatever the parsed body holds; if the parser
  failed the request, it is passed on to the framework's error handling; and in both
  cases nothing is handed to the mail dispatcher.
\<close>

theorem unauthorized_401:
  assumes "meth req = POST" and "route req = SendInviteEmail"
    and "truthy_opt (INVITE_EMAIL_API_KEY cfg)"
    and "x_api_key req = None \<or> x_api_key req \<noteq> INVITE_EMAIL_API_KEY cfg"
  shows "(req_body req \<noteq> ParseFailed \<longrightarrow>
            status_of (fst (app cfg sendMail req)) = Some 401
            \<and> body_of (fst (app cfg sendMail req)) = Some (ErrorBody ''Unauthorized''))
       \<and> (req_body req = ParseFailed \<longrightarrow>
            fst (app cfg sendMail req) = PassedOn (applyCors cfg req new_response))
       \<and> snd (app cfg sendMail req) = []"
proof (cases "req_body req = ParseFailed")
  case True
  then show ?thesis
    using assms(1) by (simp add: app_def Let_def)
next
  case False
  then have p: "post_send_invite req"
    using assms(1,2) by (simp add: post_send_invite_def)
  have "unauthorized cfg req"
    using assms(3,4) by (auto simp add: unauthorized_def)
  then show ?thesis
    using False
    by (simp add: app_post [OF p] handler_unauthorized status_of_def body_of_def
        status_json body_json status_set_status)
qed

theorem unauthorized_401_witness:
  "meth (post_request (Some ''wrong'') valid_payload) = POST
   \<and> route (post_request (Some ''wrong'') valid_payload) = SendInviteEmail
   \<and> req_body (post_request (Some ''wrong'') valid_payload) \<noteq> ParseFailed
   \<and> truthy_opt (INVITE_EMAIL_API_KEY (load_config env_smtp_key))
   \<and> x_api_key (post_request (Some ''wrong'') valid_payload)
       \<noteq> INVITE_EMAIL_API_KEY (load_config env_smtp_key)
   \<and> status_of (fst (app (load_config env_smtp_key) send_ok
                        (post_request (Some ''wrong'') valid_payload))) = Some 401
   \<and> snd (app (load_config env_smtp_key) send_ok
             (post_request (Some ''wrong'') valid_payload)) = []"
proof -
  have h1: "meth (post_request (Some ''wrong'') valid_payload) = POST"
    by (simp add: post_request_def)
  have h2: "route (post_request (Some ''wrong'') valid_payload) = SendInviteEmail"
    by (simp add: post_request_def)
  have h3: "truthy_opt (INVITE_EMAIL_API_KEY (load_config env_smtp_key))"
    by code_simp
  have h4: "x_api_key (post_request (Some ''wrong'') valid_payload)
              \<noteq> INVITE_EMAIL_API_KEY (load_config env_smtp_key)"
    by code_simp
  have h5: "req_body (post_request (Some ''wrong'') valid_payload) \<noteq> ParseFailed"
    by (simp add: post_request_def)
  show ?thesis
    using h1 h2 h3 h4 h5 unauthorized_401 [OF h1 h2 h3 disjI2 [OF h4], of send_ok] by simp
qed

text \<open>
  Claim C7. When no API key is configured, two requests that differ only in the value of
  the \<open>x-api-key\<close> header (present with any value, or absent) have the same outcome: the
  same response and the same messages handed to the dispatcher.
\<close>

theorem no_key_header_ignored:
  assumes "\<not> truthy_opt (INVITE_EMAIL_API_KEY cfg)"
  shows "app cfg sendMail (req\<lparr> x_api_key := ka \<rparr>) = app cfg sendMail (req\<lparr> x_api_key := kb \<rparr>)"
proof -
  have cors: "applyCors cfg (req\<lparr> x_api_key := ka \<rparr>) new_response
            = applyCors cfg (req\<lparr> x_api_key := kb \<rparr>) new_response"
    by (simp add: applyCors_def)
  have handler: "\<And>res. send_invite_email cfg sendMail (req\<lparr> x_api_key := ka \<rparr>) res
            = send_invite_email cfg sendMail (req\<lparr> x_api_key := kb \<rparr>) res"
    using assms by (simp add: send_invite_email_def unauthorized_def payload_of_def)
  show ?thesis
    by (auto simp add: app_def Let_def cors handler)
qed

theorem no_key_header_ignored_witness:
  "\<not> truthy_opt (INVITE_EMAIL_API_KEY (load_config env_smtp))
   \<and> app (load_config env_smtp) send_ok (post_request (Some ''anything'') valid_payload)
     = app (load_config env_smtp) send_ok (post_request None valid_payload)
   \<and> status_of (fst (app (load_config env_smtp) send_ok (post_request None valid_payload)))
     = Some 200"
proof -
  have h: "\<not> truthy_opt (INVITE_EMAIL_API_KEY (load_config env_smtp))"
    by code_simp
  have r1: "(post_request None valid_payload)\<lparr> x_api_key := Some ''anything'' \<rparr>
              = post_request (Some ''anything'') valid_payload"
    by (simp add: post_request_def)
  have r2: "(post_request None valid_payload)\<lparr> x_api_key := None \<rparr>
              = post_request None valid_payload"
    by (simp add: post_request_def)
  have s: "status_of (fst (app (load_config env_smtp) send_ok (post_request None valid_payload)))
     = Some 200"
    by code_simp
  show ?thesis
    using h s no_key_header_ignored [OF h, where sendMail = send_ok
        and req = "post_request None valid_payload" and ka = "Some ''anything''" and kb = None]
    by (simp add: r1 r2)
qed

section \<open>CORS\<close>

text \<open>
  Claim C8. In wildcard mode every response object the application ends with, sent by the
  code (204, 200, 400, 401, 500, 502) or passed on to the framework, carries the header
  \<open>Access-Control-Allow-Origin: *\<close>.
\<close>

theorem wildcard_cors_everywhere:
  assumes "allowAnyOrigin cfg"
    and "response_object (fst (app cfg sendMail req)) = Some r"
  shows "getHeader r ''Access-Control-Allow-Origin'' = Some ''*''"
proof -
  let ?res = "applyCors cfg req new_response"
  have cors: "getHeader ?res ''Access-Control-Allow-Origin'' = Some ''*''"
    using assms(1) by (rule applyCors_wildcard)
  have keep: "\<And>b n. getHeader (json b (set_status n ?res)) ''Access-Control-Allow-Origin'' = Some ''*''"
    by (simp add: getHeader_json getHeader_set_status cors)
  have keep2: "\<And>b. getHeader (json b ?res) ''Access-Control-Allow-Origin'' = Some ''*''"
    by (simp add: getHeader_json cors)
  have keep3: "\<And>n. getHeader (set_status n ?res) ''Access-Control-Allow-Origin'' = Some ''*''"
    by (simp add: getHeader_set_status cors)
  have handler: "response_object (fst (send_invite_email cfg sendMail req ?res)) = Some r
    \<Longrightarrow> getHeader r ''Access-Control-Allow-Origin'' = Some ''*''"
    by (auto simp add: send_invite_email_def Let_def keep keep2
        split: if_splits sum.splits send_result.splits thrown.splits)
  show ?thesis
    using assms(2) handler
    by (auto simp add: app_def Let_def keep2 keep3 cors split: if_splits)
qed


theorem wildcard_cors_everywhere_witness:
  "allowAnyOrigin (load_config env_key)
   \<and> status_of (fst (app (load_config env_key) send_ok (post_request None valid_payload)))
       = Some 401
   \<and> (\<exists>r. response_object (fst (app (load_config env_key) send_ok
                                   (post_request None valid_payload))) = Some r
          \<and> getHeader r ''Access-Control-Allow-Origin'' = Some ''*'')"
proof -
  have h: "allowAnyOrigin (load_config env_key)"
    by code_simp
  have s: "status_of (fst (app (load_config env_key) send_ok (post_request None valid_payload)))
       = Some 401"
    by code_simp
  obtain r where r: "response_object (fst (app (load_config env_key) send_ok
                                   (post_request None valid_payload))) = Some r"
    using s by (cases "fst (app (load_config env_key) send_ok (post_request None valid_payload))")
      (simp_all add: status_of_def)
  show ?thesis
    using h s r wildcard_cors_everywhere [OF h r] by blast
qed

section \<open>Validation of the body\<close>

text \<open>
  Claim C1, as stated, fails: with an API key configured and no \<open>x-api-key\<close> header, a
  request whose email is only white space is answered 401, not 400. The API-key gate
  comes first.
\<close>

theorem unauthorized_before_validation_counterexample:
  "post_send_invite (post_request None blank_email_payload)
   \<and> extractEmail (p_email (payload_of (post_request None blank_email_payload))) = None
   \<and> status_of (fst (app (load_config env_smtp_key) send_ok
                        (post_request None blank_email_payload))) = Some 401
   \<and> status_of (fst (app (load_config env_smtp_key) send_ok
                        (post_request None blank_email_payload))) \<noteq> Some 400"
  by code_simp

text \<open>
  Claim C1, amended. For every request to POST /send-invite-email that passes the API-key
  gate and whose body has no valid email (\<open>extractEmail\<close> gives \<open>null\<close>: not a string, empty
  or only white space, or without \<open>@\<close>) or no valid link (not a string, or empty after
  trimming), the response is 400 with the body
  \<open>{ error: 'Email and registration link are required.' }\<close>, and nothing is handed to the
  mail dispatcher.
\<close>

theorem invalid_body_400:
  assumes "post_send_invite req"
    and "\<not> unauthorized cfg req"
    and "extractEmail (p_email (payload_of req)) = None \<or> link_of (payload_of req) = []"
  shows "status_of (fst (app cfg sendMail req)) = Some 400
       \<and> body_of (fst (app cfg sendMail req))
           = Some (ErrorBody ''Email and registration link are required.'')
       \<and> snd (app cfg sendMail req) = []"
proof -
  have "\<not> truthy_opt (extractEmail (p_email (payload_of req))) \<or> link_of (payload_of req) = []"
    using assms(3) by (auto simp add: truthy_extractEmail)
  then show ?thesis
    by (simp add: app_post [OF assms(1)] handler_invalid [OF assms(2)] status_of_def body_of_def
        status_json body_json status_set_status)
qed

theorem invalid_body_400_witness:
  "post_send_invite (post_request None blank_email_payload)
   \<and> \<not> unauthorized (load_config env_smtp) (post_request None blank_email_payload)
   \<and> extractEmail (p_email (payload_of (post_request None blank_email_payload))) = None
   \<and> status_of (fst (app (load_config env_smtp) send_ok
                        (post_request None blank_email_payload))) = Some 400
   \<and> snd (app (load_config env_smtp) send_ok (post_request None blank_email_payload)) = []"
proof -
  have h1: "post_send_invite (post_request None blank_email_payload)"
    by (rule post_request_reaches)
  have h2: "\<not> unauthorized (load_config env_smtp) (post_request None blank_email_payload)"
    by code_simp
  have h3: "extractEmail (p_email (payload_of (post_request None blank_email_payload))) = None"
    by code_simp
  show ?thesis
    using h1 h2 h3 invalid_body_400 [OF h1 h2 disjI1 [OF h3], of send_ok] by simp
qed

section \<open>Configuration errors\<close>

text \<open>
  Claim C5, as stated, fails: with an API key configured, no SMTP credentials and no
  \<open>x-api-key\<close> header, a request with a valid email and link is answered 401, not 500.
\<close>

theorem unauthorized_before_config_counterexample:
  "post_send_invite (post_request None valid_payload)
   \<and> extractEmail (p_email (payload_of (post_request None valid_payload))) \<noteq> None
   \<and> link_of (payload_of (post_request None valid_payload)) \<noteq> []
   \<and> transporter (load_config env_key) = None
   \<and> status_of (fst (app (load_config env_key) send_ok (post_request None valid_payload)))
       = Some 401
   \<and> status_of (fst (app (load_config env_key) send_ok (post_request None valid_payload)))
       \<noteq> Some 500"
  by code_simp

text \<open>
  Claim C5, amended. For every request to POST /send-invite-email that passes the API-key
  gate with a valid email and link: if the transporter was not constructed (or the SMTP
  user or password is missing) the response is 500 with
  \<open>{ error: 'SMTP credentials are not configured.' }\<close>; if the transporter and the
  credentials are there and the sender email is empty the response is 500 with
  \<open>{ error: 'INVITE_FROM_EMAIL is not configured.' }\<close>; the two payloads differ; and in
  both cases nothing is handed to the mail dispatcher.
\<close>

theorem misconfiguration_500:
  assumes "post_send_invite req"
    and "\<not> unauthorized cfg req"
    and "extractEmail (p_email (payload_of req)) \<noteq> None"
    and "link_of (payload_of req) \<noteq> []"
  shows "(transporter cfg = None \<or> \<not> truthy_opt (SMTP_USER cfg) \<or> \<not> truthy_opt (SMTP_PASS cfg)
          \<longrightarrow> status_of (fst (app cfg sendMail req)) = Some 500
              \<and> body_of (fst (app cfg sendMail req))
                  = Some (ErrorBody ''SMTP credentials are not configured.'')
              \<and> snd (app cfg sendMail req) = [])
       \<and> (transporter cfg \<noteq> None \<and> truthy_opt (SMTP_USER cfg) \<and> truthy_opt (SMTP_PASS cfg)
            \<and> \<not> truthy_opt (INVITE_FROM_EMAIL cfg)
          \<longrightarrow> status_of (fst (app cfg sendMail req)) = Some 500
              \<and> body_of (fst (app cfg sendMail req))
                  = Some (ErrorBody ''INVITE_FROM_EMAIL is not configured.'')
              \<and> snd (app cfg sendMail req) = [])
       \<and> ErrorBody ''SMTP credentials are not configured.''
           \<noteq> ErrorBody ''INVITE_FROM_EMAIL is not configured.''"
proof -
  have e: "truthy_opt (extractEmail (p_email (payload_of req)))"
    using assms(3) by (simp add: truthy_extractEmail)
  show ?thesis
    using handler_no_smtp [OF assms(2) e assms(4), of sendMail]
      handler_no_sender [OF assms(2) e assms(4), of sendMail]
    by (simp add: app_post [OF assms(1)] status_of_def body_of_def
        status_json body_json status_set_status)
qed


theorem misconfiguration_500_witness:
  "post_send_invite (post_request None valid_payload)
   \<and> \<not> unauthorized (load_config env_empty) (post_request None valid_payload)
   \<and> \<not> unauthorized cfg_no_sender (post_request None valid_payload)
   \<and> extractEmail (p_email (payload_of (post_request None valid_payload))) \<noteq> None
   \<and> link_of (payload_of (post_request None valid_payload)) \<noteq> []
   \<and> transporter (load_config env_empty) = None
   \<and> body_of (fst (app (load_config env_empty) send_ok (post_request None valid_payload)))
       = Some (ErrorBody ''SMTP credentials are not configured.'')
   \<and> transporter cfg_no_sender \<noteq> None
   \<and> \<not> truthy_opt (INVITE_FROM_EMAIL cfg_no_sender)
   \<and> body_of (fst (app cfg_no_sender send_ok (post_request None valid_payload)))
       = Some (ErrorBody ''INVITE_FROM_EMAIL is not configured.'')
   \<and> snd (app cfg_no_sender send_ok (post_request None valid_payload)) = []"
proof -
  have h1: "post_send_invite (post_request None valid_payload)"
    by (rule post_request_reaches)
  have h2: "\<not> unauthorized (load_config env_empty) (post_request None valid_payload)"
    by code_simp
  have h2': "\<not> unauthorized cfg_no_sender (post_request None valid_payload)"
    by code_simp
  have h3: "extractEmail (p_email (payload_of (post_request None valid_payload))) \<noteq> None"
    by code_simp
  have h4: "link_of (payload_of (post_request None valid_payload)) \<noteq> []"
    by code_simp
  have c1: "transporter (load_config env_empty) = None"
    by code_simp
  have c2: "transporter cfg_no_sender \<noteq> None \<and> truthy_opt (SMTP_USER cfg_no_sender)
            \<and> truthy_opt (SMTP_PASS cfg_no_sender)
            \<and> \<not> truthy_opt (INVITE_FROM_EMAIL cfg_no_sender)"
    by code_simp
  show ?thesis
    using h1 h2 h2' h3 h4 c1 c2
      misconfiguration_500 [OF h1 h2 h3 h4, of send_ok]
      misconfiguration_500 [OF h1 h2' h3 h4, of send_ok]
    by simp
qed

text \<open>
  Claim C6. Under the configuration derived from the environment, whenever the
  SMTP-credentials check passes the sender email is non-empty, so no request is ever
  answered with \<open>{ error: 'INVITE_FROM_EMAIL is not configured.' }\<close>.
\<close>

theorem sender_branch_unreachable:
  "(transporter (load_config e) \<noteq> None \<and> truthy_opt (SMTP_USER (load_config e))
      \<and> truthy_opt (SMTP_PASS (load_config e))
    \<longrightarrow> truthy_opt (INVITE_FROM_EMAIL (load_config e)))
   \<and> body_of (fst (app (load_config e) sendMail req))
       \<noteq> Some (ErrorBody ''INVITE_FROM_EMAIL is not configured.'')"
proof
  show "transporter (load_config e) \<noteq> None \<and> truthy_opt (SMTP_USER (load_config e))
      \<and> truthy_opt (SMTP_PASS (load_config e))
    \<longrightarrow> truthy_opt (INVITE_FROM_EMAIL (load_config e))"
    by (simp add: load_config_sender)
next
  show "body_of (fst (app (load_config e) sendMail req))
       \<noteq> Some (ErrorBody ''INVITE_FROM_EMAIL is not configured.'')"
  proof
    assume a: "body_of (fst (app (load_config e) sendMail req))
       = Some (ErrorBody ''INVITE_FROM_EMAIL is not configured.'')"
    have "body_of (fst (send_invite_email (load_config e) sendMail req
                          (applyCors (load_config e) req new_response)))
            = Some (ErrorBody ''INVITE_FROM_EMAIL is not configured.'')"
      using a
      by (auto simp add: app_def Let_def body_of_def body_json set_status_def
          status_applyCors applyCors_def body_setHeader new_response_def
          split: if_splits option.splits)
    then have "truthy_opt (SMTP_USER (load_config e))
               \<and> \<not> truthy_opt (INVITE_FROM_EMAIL (load_config e))"
      by (rule handler_body_no_sender)
    then show False
      using load_config_sender by blast
  qed
qed

theorem sender_branch_unreachable_witness:
  "transporter (load_config env_smtp) \<noteq> None \<and> truthy_opt (SMTP_USER (load_config env_smtp))
   \<and> truthy_opt (SMTP_PASS (load_config env_smtp))
   \<and> truthy_opt (INVITE_FROM_EMAIL (load_config env_smtp))
   \<and> body_of (fst (app (load_config env_smtp) send_ok (post_request None valid_payload)))
       \<noteq> Some (ErrorBody ''INVITE_FROM_EMAIL is not configured.'')"
proof -
  have c: "transporter (load_config env_smtp) \<noteq> None
           \<and> truthy_opt (SMTP_USER (load_config env_smtp))
           \<and> truthy_opt (SMTP_PASS (load_config env_smtp))"
    by code_simp
  show ?thesis
    using c sender_branch_unreachable [of env_smtp send_ok "post_request None valid_payload"]
    by simp
qed

section \<open>Dispatch\<close>

text \<open>
  Claim C2. For every request that reaches the dispatch step, that is, for which a message
  \<open>m\<close> is handed to \<open>sendMail\<close>: \<open>sendMail\<close> is called once; if it resolves, the response is
  200 with \<open>{ delivered: true, messageId }\<close>, the id being the dispatcher's \<open>info.messageId\<close>
  or \<open>null\<close> when that is falsy; if it rejects with an \<open>Error\<close>, the response is 502 with
  \<open>{ delivered: false, reason }\<close>, the reason being the error's message text; and if it
  rejects with a value that is not an \<open>Error\<close>, the response is 502 with the fixed reason
  \<open>'Unable to send invitation email.'\<close>.
\<close>

theorem dispatch_outcome:
  assumes "snd (app cfg sendMail req) = m # ms"
  shows "ms = []
       \<and> (\<forall>messageId. sendMail m = Resolved messageId \<longrightarrow>
            status_of (fst (app cfg sendMail req)) = Some 200
            \<and> body_of (fst (app cfg sendMail req))
                = Some (DeliveredBody (if truthy messageId then messageId else JNull)))
       \<and> (\<forall>message. sendMail m = Rejected (ErrorObject message) \<longrightarrow>
            status_of (fst (app cfg sendMail req)) = Some 502
            \<and> body_of (fst (app cfg sendMail req)) = Some (FailedBody message))
       \<and> (sendMail m = Rejected NotAnError \<longrightarrow>
            status_of (fst (app cfg sendMail req)) = Some 502
            \<and> body_of (fst (app cfg sendMail req))
                = Some (FailedBody ''Unable to send invitation email.''))"
proof -
  let ?res = "applyCors cfg req new_response"
  have eq: "app cfg sendMail req = send_invite_email cfg sendMail req ?res"
    using assms by (rule app_dispatch)
  have d: "ms = []
       \<and> fst (app cfg sendMail req) =
           (case sendMail m of
              Resolved messageId \<Rightarrow>
                Responded (json (DeliveredBody (if truthy messageId then messageId else JNull)) ?res)
            | Rejected (ErrorObject message) \<Rightarrow>
                Responded (json (FailedBody message) (set_status 502 ?res))
            | Rejected NotAnError \<Rightarrow>
                Responded (json (FailedBody ''Unable to send invitation email.'')
                             (set_status 502 ?res)))"
    using handler_dispatch [of cfg sendMail req ?res m ms] assms by (simp add: eq)
  then show ?thesis
    by (simp add: status_of_def body_of_def status_json body_json status_set_status
        status_cors_new)
qed

theorem dispatch_outcome_witness:
  "snd (app (load_config env_smtp) send_ok (post_request None valid_payload)) = [example_mail]
   \<and> snd (app (load_config env_smtp) send_refused (post_request None valid_payload))
       = [example_mail]
   \<and> status_of (fst (app (load_config env_smtp) send_ok (post_request None valid_payload)))
       = Some 200
   \<and> body_of (fst (app (load_config env_smtp) send_ok (post_request None valid_payload)))
       = Some (DeliveredBody (JStr ''abc123''))
   \<and> status_of (fst (app (load_config env_smtp) send_refused (post_request None valid_payload)))
       = Some 502
   \<and> body_of (fst (app (load_config env_smtp) send_refused (post_request None valid_payload)))
       = Some (FailedBody ''connection refused'')"
proof -
  have h1: "snd (app (load_config env_smtp) send_ok (post_request None valid_payload))
              = [example_mail]"
    by code_simp
  have h2: "snd (app (load_config env_smtp) send_refused (post_request None valid_payload))
              = [example_mail]"
    by code_simp
  show ?thesis
    using h1 h2 dispatch_outcome [OF h1] dispatch_outcome [OF h2]
    by (simp add: send_ok_def send_refused_def)
qed

section \<open>What extractEmail returns\<close>

text \<open>
  Claim C4 says that \<open>extractEmail\<close> extracts the bracketed portion, trims it and
  lower-cases it. The code trims the input before it looks for the portion and not the
  portion itself: on \<open>Jo < JO@EXAMPLE.com >\<close> it returns the address with the blanks inside
  the brackets, where the procedure of the claim gives the address without them and where
  the code itself returns a bare address trimmed. The handler hands the untrimmed address
  to the dispatcher as the recipient.
\<close>

theorem bracketed_address_keeps_blanks:
  "extractEmail (JStr ''Jo < JO@EXAMPLE.com >'') = Some '' jo@example.com ''
   \<and> extractEmail_spec (JStr ''Jo < JO@EXAMPLE.com >'') = Some ''jo@example.com''
   \<and> extractEmail (JStr ''  JO@EXAMPLE.com  '') = Some ''jo@example.com''
   \<and> map mail_to (snd (app (load_config env_smtp) send_ok
                          (post_request None inner_blanks_payload)))
       = ['' jo@example.com '']"
  by code_simp

section \<open>The composed message\<close>

text \<open>
  Claim C9 says that a composer input whose organization name is not a non-empty string
  has the default subject. For the number 5 as organization name, which is truthy and not
  a string, the composer throws a \<open>TypeError\<close> instead: there is no subject, and the handler
  ends without a response and without a call of the dispatcher.
\<close>

theorem composer_throws_on_numeric_organization:
  "truthy (JOther True (Some ''5''))
   \<and> \<not> blank_string (JOther True (Some ''5''))
   \<and> buildInviteBodies (fields_of JUndefined (JOther True (Some ''5''))) = Inl TypeError
   \<and> app (load_config env_smtp) send_ok (post_request None numeric_org_payload)
       = (Threw TypeError, [])
   \<and> sent_response (fst (app (load_config env_smtp) send_ok
                            (post_request None numeric_org_payload))) = None"
  by code_simp

text \<open>
  Claim C10 says that for every composer input the role label stands in both bodies. The
  role \<open>team_lead\<close> has the label \<open>team lead\<close>, but with the number 5 as organization name the
  composer throws a \<open>TypeError\<close> and there are no bodies for it to stand in; and a role that
  has no \<open>ToString\<close> text has no label, the composer throwing likewise.
\<close>

theorem no_bodies_for_team_lead:
  "roleLabel (JStr ''team_lead'') = Inr ''team lead''
   \<and> buildInviteBodies (fields_of (JStr ''team_lead'') (JOther True (Some ''5'')))
       = Inl TypeError
   \<and> roleLabel (JOther True None) = Inl TypeError
   \<and> buildInviteBodies (fields_of (JOther True None) JUndefined) = Inl TypeError"
  by code_simp

end
